theory Spec2Isabelle
  imports Complex_Main
begin

section \<open>The notation orchestrator of MuseScore (mu4/notation/internal/notation.cpp)\<close>

text \<open>
  A shallow embedding of \<^verbatim>\<open>mu::notation::Notation\<close>. The object's members are the
  fields of a record, every method takes the object and returns the updated one, and a
  method that dereferences the score pointer returns a value of \<open>error + 'a\<close>: the C++
  program has no defined behaviour when \<^verbatim>\<open>m_score\<close> is null and is dereferenced, and the
  model makes that outcome the value \<open>Inl NullPointerDereference\<close>.

  Coordinates (\<^verbatim>\<open>qreal\<close>) are modelled as \<open>real\<close>: the code adds, negates and compares
  them, and converts them to \<^verbatim>\<open>int\<close> at one call (\<open>doubleToInt\<close>). Rounding and NaN
  are outside the model.
\<close>

subsection \<open>Geometry (QPointF, QRectF, QRect)\<close>

datatype QPointF = QPointF real real

fun QPointF_neg :: "QPointF \<Rightarrow> QPointF" where
  "QPointF_neg (QPointF x y) = QPointF (- x) (- y)"

text \<open>A \<^verbatim>\<open>QRectF\<close> holds \<^verbatim>\<open>xp, yp, w, h\<close>.\<close>

datatype QRectF = QRectF real real real real

fun QRectF_left :: "QRectF \<Rightarrow> real" where
  "QRectF_left (QRectF xp yp w h) = xp"

fun QRectF_right :: "QRectF \<Rightarrow> real" where
  "QRectF_right (QRectF xp yp w h) = xp + w"

fun QRectF_bottom :: "QRectF \<Rightarrow> real" where
  "QRectF_bottom (QRectF xp yp w h) = yp + h"

fun QRectF_translated :: "QRectF \<Rightarrow> QPointF \<Rightarrow> QRectF" where
  "QRectF_translated (QRectF xp yp w h) (QPointF dx dy) = QRectF (xp + dx) (yp + dy) w h"

fun QRectF_adjust :: "real \<Rightarrow> real \<Rightarrow> real \<Rightarrow> real \<Rightarrow> QRectF \<Rightarrow> QRectF" where
  "QRectF_adjust dx1 dy1 dx2 dy2 (QRectF xp yp w h) =
     QRectF (xp + dx1) (yp + dy1) (w + (dx2 - dx1)) (h + (dy2 - dy1))"

fun QRectF_isEmpty :: "QRectF \<Rightarrow> bool" where
  "QRectF_isEmpty (QRectF xp yp w h) = (w \<le> 0 \<or> h \<le> 0)"

fun QRectF_isNull :: "QRectF \<Rightarrow> bool" where
  "QRectF_isNull (QRectF xp yp w h) = (w = 0 \<and> h = 0)"

text \<open>
  The integer rectangle \<^verbatim>\<open>QRect\<close> holds the corners \<^verbatim>\<open>x1, y1, x2, y2\<close>; the default
  constructor gives \<^verbatim>\<open>(0, 0, -1, -1)\<close>, a rectangle of width and height 0. The conversion
  to \<^verbatim>\<open>QRectF\<close> keeps the position and the size.
\<close>

datatype QRect = QRect int int int int

definition QRect_default :: QRect where
  "QRect_default = QRect 0 0 (- 1) (- 1)"

fun QRectF_of_QRect :: "QRect \<Rightarrow> QRectF" where
  "QRectF_of_QRect (QRect x1 y1 x2 y2) =
     QRectF (real_of_int x1) (real_of_int y1)
       (real_of_int (x2 - x1 + 1)) (real_of_int (y2 - y1 + 1))"

subsection \<open>The score engine, as the orchestrator sees it\<close>

datatype LayoutMode = PAGE | FLOAT | LINE | SYSTEM

type_synonym ViewMode = LayoutMode

record Element =
  visible :: bool
  itemDiscovered :: bool
  pagePos :: QPointF

text \<open>
  A page answers \<^verbatim>\<open>pos(), bbox(), abbox(), canvasBoundingRect(), lm(), tm(), rm(), bm(),
  isOdd()\<close> and \<^verbatim>\<open>elements()\<close>. The layout engine computes them; here they are the
  fields of the page.
\<close>

record Page =
  pos :: QPointF
  bbox :: QRectF
  abbox :: QRectF
  canvasBoundingRect :: QRectF
  lm :: real
  tm :: real
  rm :: real
  bm :: real
  isOdd :: bool
  elements :: "Element list"

text \<open>
  Modelled from the spec: \<^verbatim>\<open>Ms::Score\<close> (libmscore) is not among the sources. The spec
  gives it as an opaque handle with the operations \<^verbatim>\<open>title, metaTag(key), setMetaTag(key,
  value), pages(), layoutMode(), setLayoutMode(mode), doLayout(), printing(),
  showPageborders()\<close>. The tags are a store from keys to strings and the title is a
  value of its own.
\<close>

record Score =
  Score_title :: string
  metaTags :: "string \<rightharpoonup> string"
  pages :: "Page list"
  layoutMode :: LayoutMode
  printing :: bool
  showPageborders :: bool

definition metaTag :: "Score \<Rightarrow> string \<Rightarrow> string" where
  "metaTag s k = (case metaTags s k of None \<Rightarrow> [] | Some v \<Rightarrow> v)"

definition setMetaTag :: "string \<Rightarrow> string \<Rightarrow> Score \<Rightarrow> Score" where
  "setMetaTag k v s = s\<lparr>metaTags := (metaTags s)(k \<mapsto> v)\<rparr>"

definition setLayoutMode :: "LayoutMode \<Rightarrow> Score \<Rightarrow> Score" where
  "setLayoutMode mode s = s\<lparr>layoutMode := mode\<rparr>"

subsection \<open>The Notation object\<close>

datatype error = NullPointerDereference

text \<open>
  Modelled from the spec: \<^verbatim>\<open>mu::ValCh\<close> and \<^verbatim>\<open>mu::async::Notification\<close> (framework) are
  not among the sources. The spec gives "a boolean-valued observable with change
  notification" and "a zero-argument notification channel". A \<open>ValCh\<close> is its value and
  the values sent on its channel so far, in order; \<^verbatim>\<open>set\<close> stores the value and sends
  it. The notification is the number of times \<^verbatim>\<open>notify()\<close> has been called.
\<close>

record 'a ValCh =
  val :: 'a
  ch :: "'a list"

definition ValCh_set :: "'a \<Rightarrow> 'a ValCh \<Rightarrow> 'a ValCh" where
  "ValCh_set v c = c\<lparr>val := v, ch := ch c @ [v]\<rparr>"

record Notation =
  m_score :: "Score option"
  m_opened :: "bool ValCh"
  m_notationChanged :: nat

definition score :: "Notation \<Rightarrow> error + Score" where
  "score n = (case m_score n of None \<Rightarrow> Inl NullPointerDereference | Some s \<Rightarrow> Inr s)"

definition notifyAboutNotationChanged :: "Notation \<Rightarrow> Notation" where
  "notifyAboutNotationChanged n = n\<lparr>m_notationChanged := Suc (m_notationChanged n)\<rparr>"

text \<open>
  \<^verbatim>\<open>setViewMode\<close>: the engine's \<^verbatim>\<open>doLayout()\<close> is a parameter of the model.
\<close>

definition setViewMode :: "(Score \<Rightarrow> Score) \<Rightarrow> ViewMode \<Rightarrow> Notation \<Rightarrow> Notation" where
  "setViewMode doLayout viewMode n =
     (case m_score n of
        None \<Rightarrow> n
      | Some s \<Rightarrow>
          notifyAboutNotationChanged
            (n\<lparr>m_score := Some (doLayout (setLayoutMode viewMode s))\<rparr>))"

definition viewMode :: "Notation \<Rightarrow> ViewMode" where
  "viewMode n = (case m_score n of None \<Rightarrow> PAGE | Some s \<Rightarrow> layoutMode s)"

definition setOpened :: "bool \<Rightarrow> Notation \<Rightarrow> Notation" where
  "setOpened opened n =
     (if val (m_opened n) = opened then n
      else n\<lparr>m_opened := ValCh_set opened (m_opened n)\<rparr>)"

subsection \<open>Strings and dates (QString, QDate)\<close>

text \<open>
  \<^verbatim>\<open>setMetaInfo\<close> writes the creation date with \<^verbatim>\<open>QDate::toString()\<close>, whose format
  argument defaults to \<^verbatim>\<open>Qt::TextDate\<close>, and \<^verbatim>\<open>metaInfo\<close> reads it with
  \<^verbatim>\<open>QDate::fromString(_, Qt::ISODate)\<close>. Both are functions of the Qt library; they are
  modelled after Qt 5: the text format is "ddd MMM d yyyy" (short day name, short month
  name, day and year without padding, English names), and the ISO parser wants at least
  ten characters, no digit at positions 4 and 7, no digit at position 10, and a year
  between 1 and 9999 in the first four characters.
\<close>

definition isDigit :: "char \<Rightarrow> bool" where
  "isDigit c = (c \<in> set ''0123456789'')"

definition isSpace :: "char \<Rightarrow> bool" where
  "isSpace c = (c \<in> set [CHR '' '', CHR 0x09, CHR 0x0A, CHR 0x0B, CHR 0x0C, CHR 0x0D])"

text \<open>The value of a digit is its position in the row of the ten digits.\<close>

definition digitValue :: "char \<Rightarrow> nat" where
  "digitValue c = length (takeWhile (\<lambda>d. d \<noteq> c) ''0123456789'')"

definition trimmed :: "string \<Rightarrow> string" where
  "trimmed s = rev (dropWhile isSpace (rev (dropWhile isSpace s)))"

definition mid :: "nat \<Rightarrow> nat \<Rightarrow> string \<Rightarrow> string" where
  "mid position n s = take n (drop position s)"

fun digitsToNat :: "nat \<Rightarrow> string \<Rightarrow> nat option" where
  "digitsToNat acc [] = Some acc"
| "digitsToNat acc (c # cs) =
     (if isDigit c then digitsToNat (10 * acc + digitValue c) cs else None)"

text \<open>
  \<^verbatim>\<open>QString::toInt\<close>: surrounding white space is dropped, a sign is allowed, and the
  result is 0 when the text is not a number or does not fit a 32-bit \<^verbatim>\<open>int\<close>.
\<close>

definition unsignedToInt :: "string \<Rightarrow> int option" where
  "unsignedToInt s =
     (case s of [] \<Rightarrow> None | _ # _ \<Rightarrow> map_option int (digitsToNat 0 s))"

definition toInt :: "string \<Rightarrow> int" where
  "toInt s =
     (let r = (case trimmed s of
                 [] \<Rightarrow> None
               | c # cs \<Rightarrow>
                   if c = CHR ''-'' then map_option uminus (unsignedToInt cs)
                   else if c = CHR ''+'' then unsignedToInt cs
                   else unsignedToInt (c # cs))
      in case r of
           None \<Rightarrow> 0
         | Some v \<Rightarrow> if - 2147483648 \<le> v \<and> v \<le> 2147483647 then v else 0)"

definition digitChar :: "nat \<Rightarrow> char" where
  "digitChar d = ''0123456789'' ! (d mod 10)"

fun numberNat :: "nat \<Rightarrow> string" where
  "numberNat n = (if n < 10 then [digitChar n] else numberNat (n div 10) @ [digitChar n])"

declare numberNat.simps [simp del]

text \<open>\<^verbatim>\<open>QString::number\<close> of an integer, in base 10.\<close>

definition number :: "int \<Rightarrow> string" where
  "number i = (if i < 0 then CHR ''-'' # numberNat (nat (- i)) else numberNat (nat i))"

text \<open>
  A \<^verbatim>\<open>QDate\<close> is the null date or a valid day of the proleptic Gregorian calendar
  (there is no year 0). \<open>QDate_ymd\<close> is the constructor \<^verbatim>\<open>QDate(y, m, d)\<close>, which gives
  the null date when \<open>y, m, d\<close> is not a valid day.
\<close>

datatype QDate = NullDate | Date int int int

definition isLeapYear :: "int \<Rightarrow> bool" where
  "isLeapYear y =
     (let y' = (if y < 1 then y + 1 else y)
      in (y' mod 4 = 0 \<and> y' mod 100 \<noteq> 0) \<or> y' mod 400 = 0)"

definition daysInMonth :: "int \<Rightarrow> int \<Rightarrow> int" where
  "daysInMonth y m =
     (if m = 2 then (if isLeapYear y then 29 else 28)
      else if m = 4 \<or> m = 6 \<or> m = 9 \<or> m = 11 then 30 else 31)"

definition isValid_ymd :: "int \<Rightarrow> int \<Rightarrow> int \<Rightarrow> bool" where
  "isValid_ymd y m d = (y \<noteq> 0 \<and> 1 \<le> m \<and> m \<le> 12 \<and> 1 \<le> d \<and> d \<le> daysInMonth y m)"

definition QDate_ymd :: "int \<Rightarrow> int \<Rightarrow> int \<Rightarrow> QDate" where
  "QDate_ymd y m d = (if isValid_ymd y m d then Date y m d else NullDate)"

fun QDate_isValid :: "QDate \<Rightarrow> bool" where
  "QDate_isValid NullDate = False"
| "QDate_isValid (Date y m d) = isValid_ymd y m d"

definition julianDayFromDate :: "int \<Rightarrow> int \<Rightarrow> int \<Rightarrow> int" where
  "julianDayFromDate year month day =
     (let year' = (if year < 0 then year + 1 else year);
          a = (14 - month) div 12;
          y = year' + 4800 - a;
          m = month + 12 * a - 3
      in day + (153 * m + 2) div 5 + 365 * y + y div 4 - y div 100 + y div 400 - 32045)"

definition dayOfWeek :: "int \<Rightarrow> int \<Rightarrow> int \<Rightarrow> int" where
  "dayOfWeek y m d = julianDayFromDate y m d mod 7 + 1"

definition shortDayName :: "int \<Rightarrow> string" where
  "shortDayName wd =
     (if wd = 1 then ''Mon'' else if wd = 2 then ''Tue'' else if wd = 3 then ''Wed''
      else if wd = 4 then ''Thu'' else if wd = 5 then ''Fri'' else if wd = 6 then ''Sat''
      else ''Sun'')"

definition shortMonthName :: "int \<Rightarrow> string" where
  "shortMonthName m =
     (if m = 1 then ''Jan'' else if m = 2 then ''Feb'' else if m = 3 then ''Mar''
      else if m = 4 then ''Apr'' else if m = 5 then ''May'' else if m = 6 then ''Jun''
      else if m = 7 then ''Jul'' else if m = 8 then ''Aug'' else if m = 9 then ''Sep''
      else if m = 10 then ''Oct'' else if m = 11 then ''Nov'' else ''Dec'')"

fun QDate_toString :: "QDate \<Rightarrow> string" where
  "QDate_toString NullDate = []"
| "QDate_toString (Date y m d) =
     (if isValid_ymd y m d
      then shortDayName (dayOfWeek y m d) @ '' '' @ shortMonthName m @ '' '' @ number d
             @ '' '' @ number y
      else [])"

definition QDate_fromString_ISODate :: "string \<Rightarrow> QDate" where
  "QDate_fromString_ISODate s =
     (if s = [] then NullDate
      else if length s < 10 then NullDate
      else if isDigit (s ! 4) \<or> isDigit (s ! 7) then NullDate
      else if length s > 10 \<and> isDigit (s ! 10) then NullDate
      else let year = toInt (mid 0 4 s)
           in if year \<le> 0 \<or> year > 9999 then NullDate
              else QDate_ymd year (toInt (mid 5 2 s)) (toInt (mid 8 2 s)))"

subsection \<open>Metadata\<close>

text \<open>
  Modelled from the spec: the declaration of \<^verbatim>\<open>Meta\<close> (notationtypes.h) is not among the
  sources. The spec gives its fields: title, subtitle, composer, lyricist, copyright,
  translator, arranger, creation date.
\<close>

record Meta =
  title :: string
  subtitle :: string
  composer :: string
  lyricist :: string
  copyright :: string
  translator :: string
  arranger :: string
  creationDate :: QDate

definition SUBTITLE_KEY :: string where "SUBTITLE_KEY = ''subtitle''"
definition COMPOSER_KEY :: string where "COMPOSER_KEY = ''composer''"
definition LYRICIST_KEY :: string where "LYRICIST_KEY = ''lyricist''"
definition COPYRIGHT_KEY :: string where "COPYRIGHT_KEY = ''copyright''"
definition TRANSLATOR_KEY :: string where "TRANSLATOR_KEY = ''translator''"
definition ARRANGER_KEY :: string where "ARRANGER_KEY = ''arranger''"
definition CREATION_DATE_KEY :: string where "CREATION_DATE_KEY = ''creationDate''"

definition metaKeys :: "string list" where
  "metaKeys = [SUBTITLE_KEY, COMPOSER_KEY, LYRICIST_KEY, COPYRIGHT_KEY, TRANSLATOR_KEY,
     ARRANGER_KEY, CREATION_DATE_KEY]"

definition metaInfo :: "Notation \<Rightarrow> error + Meta" where
  "metaInfo n =
     (case score n of
        Inl e \<Rightarrow> Inl e
      | Inr s \<Rightarrow>
          Inr \<lparr>title = Score_title s,
               subtitle = metaTag s SUBTITLE_KEY,
               composer = metaTag s COMPOSER_KEY,
               lyricist = metaTag s LYRICIST_KEY,
               copyright = metaTag s COPYRIGHT_KEY,
               translator = metaTag s TRANSLATOR_KEY,
               arranger = metaTag s ARRANGER_KEY,
               creationDate = QDate_fromString_ISODate (metaTag s CREATION_DATE_KEY)\<rparr>)"

definition setMetaInfo :: "Meta \<Rightarrow> Notation \<Rightarrow> error + Notation" where
  "setMetaInfo meta n =
     (case score n of
        Inl e \<Rightarrow> Inl e
      | Inr s \<Rightarrow>
          Inr (n\<lparr>m_score := Some
            (setMetaTag CREATION_DATE_KEY (QDate_toString (creationDate meta))
              (setMetaTag ARRANGER_KEY (arranger meta)
                (setMetaTag TRANSLATOR_KEY (translator meta)
                  (setMetaTag COPYRIGHT_KEY (copyright meta)
                    (setMetaTag LYRICIST_KEY (lyricist meta)
                      (setMetaTag COMPOSER_KEY (composer meta)
                        (setMetaTag SUBTITLE_KEY (subtitle meta) s)))))))\<rparr>))"

text \<open>The call sequence \<^verbatim>\<open>setMetaInfo(meta); metaInfo()\<close> on one object.\<close>

definition setMetaInfo_then_metaInfo :: "Meta \<Rightarrow> Notation \<Rightarrow> error + Meta" where
  "setMetaInfo_then_metaInfo meta n =
     (case setMetaInfo meta n of Inl e \<Rightarrow> Inl e | Inr n' \<Rightarrow> metaInfo n')"

subsection \<open>The preview rectangle\<close>

definition previewRect :: "Notation \<Rightarrow> error + QRectF" where
  "previewRect n =
     (case m_score n of
        None \<Rightarrow> Inl NullPointerDereference
      | Some s \<Rightarrow>
          (case pages s of
             [] \<Rightarrow> Inr (QRectF_of_QRect QRect_default)
           | first # _ \<Rightarrow> Inr (bbox first)))"

subsection \<open>Painting\<close>

text \<open>
  The painter is an instrumented one: a method that paints returns the calls it makes on
  the \<^verbatim>\<open>QPainter\<close>, in order. \<open>ElementDraw\<close> is the element's own \<^verbatim>\<open>draw(painter)\<close> and
  \<open>InteractionPaint\<close> the overlay of the interaction component; what they draw is the
  engine's business.
\<close>

datatype QColor = QColor nat nat nat

datatype QBrush = NoBrush

datatype QPen = QPen QColor real | QPen_color QColor

datatype PainterCall =
    Translate QPointF
  | FillRect QRectF QColor
  | DrawRect QRectF
  | DrawLine int int int int
  | SetBrush QBrush
  | SetPen QPen
  | ElementDraw Element
  | InteractionPaint

text \<open>
  What the painting reads from outside the object: the injected configuration
  (\<^verbatim>\<open>pageColor, borderColor, borderWidth\<close>), the static \<^verbatim>\<open>MScore::frameMarginColor\<close>, and
  \<open>outOfRangeInt\<close>, what the platform yields when a \<^verbatim>\<open>double\<close> beyond the range of
  \<^verbatim>\<open>int\<close> is converted to \<^verbatim>\<open>int\<close> (see \<open>doubleToInt\<close>).
\<close>

record Globals =
  pageColor :: QColor
  borderColor :: QColor
  borderWidth :: real
  frameMarginColor :: QColor
  outOfRangeInt :: "real \<Rightarrow> int"

text \<open>
  The conversion of a \<^verbatim>\<open>double\<close> to a 32-bit \<^verbatim>\<open>int\<close> discards the fractional part
  (truncation toward zero). When the truncated value does not fit an \<^verbatim>\<open>int\<close>, C++
  leaves the conversion undefined; the model then takes the value from \<open>outOfRangeInt\<close>,
  so what is proved below holds whatever the platform yields there.
\<close>

definition truncateTowardZero :: "real \<Rightarrow> int" where
  "truncateTowardZero r = (if 0 \<le> r then \<lfloor>r\<rfloor> else \<lceil>r\<rceil>)"

definition doubleToInt :: "Globals \<Rightarrow> real \<Rightarrow> int" where
  "doubleToInt g r =
     (let t = truncateTowardZero r
      in if - 2147483648 \<le> t \<and> t \<le> 2147483647 then t else outOfRangeInt g r)"

text \<open>
  \<^verbatim>\<open>paintElements\<close> clears the \<^verbatim>\<open>itemDiscovered\<close> flag of every visible element, so it
  returns the elements as it leaves them, next to the painter calls.
\<close>

fun paintElements :: "Element list \<Rightarrow> PainterCall list \<times> Element list" where
  "paintElements [] = ([], [])"
| "paintElements (element # rest) =
     (if \<not> visible element
      then (let (calls, rest') = paintElements rest in (calls, element # rest'))
      else (let element' = element\<lparr>itemDiscovered := False\<rparr>;
                elementPosition = pagePos element';
                (calls, rest') = paintElements rest
            in ([Translate elementPosition, ElementDraw element',
                 Translate (QPointF_neg elementPosition)] @ calls,
                element' # rest')))"

text \<open>
  \<^verbatim>\<open>paintPageBorder\<close>: the rectangles go to \<^verbatim>\<open>drawRect(const QRectF&)\<close> as they are. The
  vertical rule is drawn by \<^verbatim>\<open>drawLine\<close> with four arguments of type \<^verbatim>\<open>qreal\<close>; the only
  overload of \<^verbatim>\<open>QPainter::drawLine\<close> with four arguments takes \<^verbatim>\<open>int\<close>, so each
  coordinate is converted to \<^verbatim>\<open>int\<close> at the call.
\<close>

definition paintPageBorder :: "Globals \<Rightarrow> Score \<Rightarrow> Page \<Rightarrow> PainterCall list" where
  "paintPageBorder g s page =
     (let boundingRect = canvasBoundingRect page;
          outer = [SetBrush NoBrush, SetPen (QPen (borderColor g) (borderWidth g)),
                   DrawRect boundingRect]
      in if \<not> showPageborders s then outer
         else
           (let boundingRect' = QRectF_adjust (lm page) (tm page) (- rm page) (- bm page) boundingRect;
                inner = [SetBrush NoBrush, SetPen (QPen_color (frameMarginColor g)),
                         DrawRect boundingRect']
            in if \<not> isOdd page
               then outer @ inner @
                      [DrawLine (doubleToInt g (QRectF_right boundingRect'))
                         (doubleToInt g 0)
                         (doubleToInt g (QRectF_right boundingRect'))
                         (doubleToInt g (QRectF_bottom boundingRect'))]
               else outer @ inner))"

definition pageRect :: "Page \<Rightarrow> QRectF" where
  "pageRect page = QRectF_translated (abbox page) (pos page)"

text \<open>
  \<open>paintPage\<close> is the body of the loop of \<^verbatim>\<open>paintPages\<close> after the two culling tests:
  the border if asked for, then the page's background and elements in the page's own
  coordinates.
\<close>

definition paintPage :: "Globals \<Rightarrow> Score \<Rightarrow> bool \<Rightarrow> Page \<Rightarrow> PainterCall list \<times> Page" where
  "paintPage g s paintBorders page =
     (let border = (if paintBorders then paintPageBorder g s page else []);
          pagePosition = pos page;
          (calls, elements') = paintElements (elements page)
      in (border @ [Translate pagePosition, FillRect (bbox page) (pageColor g)] @ calls
            @ [Translate (QPointF_neg pagePosition)],
          page\<lparr>elements := elements'\<rparr>))"

text \<open>
  The loop of \<^verbatim>\<open>paintPages\<close>: \<^verbatim>\<open>continue\<close> goes on with the rest of the list,
  \<^verbatim>\<open>break\<close> leaves the rest untouched.
\<close>

fun paintPages ::
  "Globals \<Rightarrow> Score \<Rightarrow> QRectF \<Rightarrow> Page list \<Rightarrow> bool \<Rightarrow> PainterCall list \<times> Page list" where
  "paintPages g s frameRect [] paintBorders = ([], [])"
| "paintPages g s frameRect (page # rest) paintBorders =
     (if QRectF_right (pageRect page) < QRectF_left frameRect
      then (let (calls, rest') = paintPages g s frameRect rest paintBorders
            in (calls, page # rest'))
      else if QRectF_left (pageRect page) > QRectF_right frameRect
      then ([], page # rest)
      else (let (pageCalls, page') = paintPage g s paintBorders page;
                (calls, rest') = paintPages g s frameRect rest paintBorders
            in (pageCalls @ calls, page' # rest')))"

text \<open>
  \<^verbatim>\<open>paint\<close> returns the painter calls and the object as the painting leaves it (the
  pages' elements have their flags cleared). In the modes \<open>LINE\<close> and \<open>SYSTEM\<close> the list
  handed to \<^verbatim>\<open>paintPages\<close> holds the first page only, the same page object as in the
  score, so the painted page replaces the score's first page.
\<close>

definition paint :: "Globals \<Rightarrow> QRectF \<Rightarrow> Notation \<Rightarrow> error + PainterCall list \<times> Notation" where
  "paint g frameRect n =
     (case score n of
        Inl e \<Rightarrow> Inl e
      | Inr s \<Rightarrow>
          (case pages s of
             [] \<Rightarrow> Inr ([], n)
           | first # others \<Rightarrow>
               (let (calls, pages') =
                      (case layoutMode s of
                         LINE \<Rightarrow>
                           (let (c, ps) = paintPages g s frameRect [first] False
                            in (c, ps @ others))
                       | SYSTEM \<Rightarrow>
                           (let (c, ps) = paintPages g s frameRect [first] False
                            in (c, ps @ others))
                       | FLOAT \<Rightarrow> paintPages g s frameRect (first # others) (\<not> printing s)
                       | PAGE \<Rightarrow> paintPages g s frameRect (first # others) (\<not> printing s))
                in Inr (calls @ [InteractionPaint], n\<lparr>m_score := Some (s\<lparr>pages := pages'\<rparr>)\<rparr>))))"

text \<open>
  The vocabulary of the culling claim. A page cuts the visible region horizontally when
  neither culling test of the loop fires on it; the pages have strictly increasing
  horizontal extents when, from each page to every later one, the left edge and the
  right edge of the canvas rectangle both grow.
\<close>

definition entirelyLeft :: "QRectF \<Rightarrow> Page \<Rightarrow> bool" where
  "entirelyLeft frameRect page = (QRectF_right (pageRect page) < QRectF_left frameRect)"

definition startsBeyond :: "QRectF \<Rightarrow> Page \<Rightarrow> bool" where
  "startsBeyond frameRect page = (QRectF_left (pageRect page) > QRectF_right frameRect)"

definition intersectsHorizontally :: "QRectF \<Rightarrow> Page \<Rightarrow> bool" where
  "intersectsHorizontally frameRect page =
     (\<not> entirelyLeft frameRect page \<and> \<not> startsBeyond frameRect page)"

definition increasingExtents :: "Page list \<Rightarrow> bool" where
  "increasingExtents ps =
     sorted_wrt (\<lambda>p q. QRectF_left (pageRect p) < QRectF_left (pageRect q)
                      \<and> QRectF_right (pageRect p) < QRectF_right (pageRect q)) ps"

text \<open>
  What an instrumented painter can tell of a list of calls: the rectangles filled (the
  page backgrounds), the rectangles drawn (the frames of the borders) and the number of
  lines drawn, each in the order of the calls.
\<close>

definition rectsFilled :: "PainterCall list \<Rightarrow> QRectF list" where
  "rectsFilled calls = concat (map (\<lambda>c. case c of FillRect r col \<Rightarrow> [r] | _ \<Rightarrow> []) calls)"

definition rectsDrawn :: "PainterCall list \<Rightarrow> QRectF list" where
  "rectsDrawn calls = concat (map (\<lambda>c. case c of DrawRect r \<Rightarrow> [r] | _ \<Rightarrow> []) calls)"

definition lineDraws :: "PainterCall list \<Rightarrow> nat" where
  "lineDraws calls = length (filter (\<lambda>c. case c of DrawLine x1 y1 x2 y2 \<Rightarrow> True | _ \<Rightarrow> False) calls)"

text \<open>
  The pages the loop of \<^verbatim>\<open>paintPages\<close> is to visit, said with the list functions: the
  loop runs up to the first page that is not entirely to the left and starts beyond the
  right edge, and of the pages before that one it visits those not entirely to the left.
\<close>

definition visitedPages :: "QRectF \<Rightarrow> Page list \<Rightarrow> Page list" where
  "visitedPages frameRect ps =
     filter (\<lambda>p. \<not> entirelyLeft frameRect p)
       (takeWhile (\<lambda>p. entirelyLeft frameRect p \<or> \<not> startsBeyond frameRect p) ps)"

text \<open>The frames of a page's border: the outer one, and the inner one if the score shows it.\<close>

definition borderFrames :: "Score \<Rightarrow> Page \<Rightarrow> QRectF list" where
  "borderFrames s p =
     canvasBoundingRect p #
       (if showPageborders s
        then [QRectF_adjust (lm p) (tm p) (- rm p) (- bm p) (canvasBoundingRect p)]
        else [])"

subsection \<open>Concrete objects\<close>

text \<open>
  The objects at which the theorems below are evaluated: pages 80 wide and 100 high, each
  with a visible and an invisible element, laid out from left to right.
\<close>

definition exampleGlobals :: Globals where
  "exampleGlobals = \<lparr>pageColor = QColor 255 255 255, borderColor = QColor 0 0 0,
     borderWidth = 1, frameMarginColor = QColor 128 128 128,
     outOfRangeInt = (\<lambda>r. - 2147483648)\<rparr>"

definition exampleElement :: "bool \<Rightarrow> Element" where
  "exampleElement v = \<lparr>visible = v, itemDiscovered = True, pagePos = QPointF 5 5\<rparr>"

definition examplePage :: "real \<Rightarrow> bool \<Rightarrow> Page" where
  "examplePage x parity = \<lparr>pos = QPointF x 0, bbox = QRectF 0 0 80 100,
     abbox = QRectF 0 0 80 100, canvasBoundingRect = QRectF x 0 80 100,
     lm = 10, tm = 10, rm = 10, bm = 10, isOdd = parity,
     elements = [exampleElement True, exampleElement False]\<rparr>"

definition examplePages :: "Page list" where
  "examplePages = [examplePage 0 True, examplePage 90 False, examplePage 180 True,
     examplePage 310 False, examplePage 400 True]"

definition exampleFrame :: QRectF where
  "exampleFrame = QRectF 100 0 200 100"

definition exampleScore :: "Page list \<Rightarrow> LayoutMode \<Rightarrow> Score" where
  "exampleScore ps mode = \<lparr>Score_title = ''Sonata'', metaTags = Map.empty, pages = ps,
     layoutMode = mode, printing = False, showPageborders = True\<rparr>"

definition exampleNotation :: "Score option \<Rightarrow> Notation" where
  "exampleNotation s = \<lparr>m_score = s, m_opened = \<lparr>val = False, ch = []\<rparr>,
     m_notationChanged = 0\<rparr>"

definition exampleMeta :: Meta where
  "exampleMeta = \<lparr>title = ''Etude'', subtitle = ''Op. 1'', composer = ''A'', lyricist = ''B'',
     copyright = ''C'', translator = ''D'', arranger = ''E'', creationDate = Date 2020 1 1\<rparr>"

section \<open>Properties\<close>

subsection \<open>The opened flag\<close>

text \<open>
  C7. Setting the opened flag to the value it already has leaves the whole object as it
  is: the value stays and nothing is sent on the channel. Setting it to the other value
  stores the new value and sends exactly one change notification, which carries the new
  value; nothing else of the object changes.
\<close>

theorem setOpened_dedup:
  "setOpened (val (m_opened n)) n = n
   \<and> setOpened (\<not> val (m_opened n)) n =
       n\<lparr>m_opened := (m_opened n)\<lparr>val := \<not> val (m_opened n),
                                      ch := ch (m_opened n) @ [\<not> val (m_opened n)]\<rparr>\<rparr>"
  by (simp add: setOpened_def ValCh_set_def)

subsection \<open>The view mode\<close>

text \<open>
  C8. Without an attached score \<open>viewMode\<close> is \<open>PAGE\<close>, whatever the rest of the object
  holds; with an attached score it is the engine's layout mode.
\<close>

theorem viewMode_default:
  "viewMode (n\<lparr>m_score := None\<rparr>) = PAGE
   \<and> viewMode (n\<lparr>m_score := Some s\<rparr>) = layoutMode s"
  by (simp add: viewMode_def)

text \<open>
  C6. Without an attached score \<open>setViewMode\<close> returns the object as it is, so nothing
  is notified. With an attached score \<open>s\<close> the new score is the engine's re-layout of
  \<open>s\<close> with the layout mode set to the given mode, the count of change notifications
  grows by exactly one, and nothing else of the object changes.
\<close>

theorem setViewMode_effect:
  "setViewMode doLayout mode (n\<lparr>m_score := None\<rparr>) = n\<lparr>m_score := None\<rparr>
   \<and> setViewMode doLayout mode (n\<lparr>m_score := Some s\<rparr>) =
       n\<lparr>m_score := Some (doLayout (s\<lparr>layoutMode := mode\<rparr>)),
         m_notationChanged := Suc (m_notationChanged n)\<rparr>"
  by (simp add: setViewMode_def setLayoutMode_def notifyAboutNotationChanged_def)

subsection \<open>The preview rectangle\<close>

text \<open>
  C9. With an attached score that has no page, \<open>previewRect\<close> is the rectangle
  \<open>(0, 0, 0, 0)\<close>, which is empty (and null); with at least one page it is the bounding
  box of the first page.
\<close>

theorem previewRect_pages:
  "previewRect (n\<lparr>m_score := Some (s\<lparr>pages := []\<rparr>)\<rparr>) = Inr (QRectF 0 0 0 0)
   \<and> QRectF_isEmpty (QRectF 0 0 0 0) \<and> QRectF_isNull (QRectF 0 0 0 0)
   \<and> previewRect (n\<lparr>m_score := Some (s\<lparr>pages := p # ps\<rparr>)\<rparr>) = Inr (bbox p)"
  by (simp add: previewRect_def QRect_default_def)

subsection \<open>No attached score\<close>

text \<open>
  C5. The claim is that without an attached score \<open>metaInfo\<close> gives an empty \<open>Meta\<close> and
  \<open>previewRect\<close> an empty rectangle. The code has no guard in either method (unlike
  \<open>viewMode\<close> and \<open>setViewMode\<close>): both dereference the null score pointer.
\<close>

theorem no_score_dereferences_null:
  "metaInfo (n\<lparr>m_score := None\<rparr>) = Inl NullPointerDereference
   \<and> previewRect (n\<lparr>m_score := None\<rparr>) = Inl NullPointerDereference"
  by (simp add: metaInfo_def previewRect_def score_def)

subsection \<open>Page borders\<close>

lemma doubleToInt_zero: "doubleToInt g 0 = 0"
  by (simp add: doubleToInt_def truncateTowardZero_def)

text \<open>
  C3. With the score's \<open>showPageborders\<close> flag set, the border of an even page (\<open>isOdd\<close>
  false) has exactly one line draw more than the border of an odd page; for one page
  taken with either parity, the even border is the odd border followed by one vertical
  line: both end points have the same \<open>x\<close>, the right edge of the inner frame converted
  to \<^verbatim>\<open>int\<close>, and the line runs from \<open>y = 0\<close> to the bottom of the inner frame. With the
  flag unset the border is the outer frame rectangle alone, whatever the parity. On a
  page whose inner frame ends at 160.5 and 89.75 the line drawn is (160, 0, 160, 89).
\<close>

theorem paintPageBorder_even_rule:
  "lineDraws (paintPageBorder g (s\<lparr>showPageborders := True\<rparr>) (q\<lparr>isOdd := False\<rparr>)) =
     Suc (lineDraws (paintPageBorder g (s\<lparr>showPageborders := True\<rparr>) (p\<lparr>isOdd := True\<rparr>)))
   \<and> paintPageBorder g (s\<lparr>showPageborders := True\<rparr>) (p\<lparr>isOdd := False\<rparr>) =
       paintPageBorder g (s\<lparr>showPageborders := True\<rparr>) (p\<lparr>isOdd := True\<rparr>) @
         [DrawLine
            (doubleToInt g
              (QRectF_right (QRectF_adjust (lm p) (tm p) (- rm p) (- bm p) (canvasBoundingRect p))))
            0
            (doubleToInt g
              (QRectF_right (QRectF_adjust (lm p) (tm p) (- rm p) (- bm p) (canvasBoundingRect p))))
            (doubleToInt g
              (QRectF_bottom (QRectF_adjust (lm p) (tm p) (- rm p) (- bm p) (canvasBoundingRect p))))]
   \<and> paintPageBorder g (s\<lparr>showPageborders := False\<rparr>) p =
        [SetBrush NoBrush, SetPen (QPen (borderColor g) (borderWidth g)),
         DrawRect (canvasBoundingRect p)]
   \<and> paintPageBorder exampleGlobals (exampleScore [] PAGE)
        ((examplePage 90 False)\<lparr>canvasBoundingRect := QRectF 90.5 0 80 99.75\<rparr>) =
        [SetBrush NoBrush, SetPen (QPen (QColor 0 0 0) 1), DrawRect (QRectF 90.5 0 80 99.75),
         SetBrush NoBrush, SetPen (QPen_color (QColor 128 128 128)),
         DrawRect (QRectF 100.5 10 60 79.75), DrawLine 160 0 160 89]"
proof (intro conjI)
  show "lineDraws (paintPageBorder g (s\<lparr>showPageborders := True\<rparr>) (q\<lparr>isOdd := False\<rparr>)) =
     Suc (lineDraws (paintPageBorder g (s\<lparr>showPageborders := True\<rparr>) (p\<lparr>isOdd := True\<rparr>)))"
    by (simp add: paintPageBorder_def lineDraws_def Let_def)
  show "paintPageBorder g (s\<lparr>showPageborders := True\<rparr>) (p\<lparr>isOdd := False\<rparr>) =
       paintPageBorder g (s\<lparr>showPageborders := True\<rparr>) (p\<lparr>isOdd := True\<rparr>) @
         [DrawLine
            (doubleToInt g
              (QRectF_right (QRectF_adjust (lm p) (tm p) (- rm p) (- bm p) (canvasBoundingRect p))))
            0
            (doubleToInt g
              (QRectF_right (QRectF_adjust (lm p) (tm p) (- rm p) (- bm p) (canvasBoundingRect p))))
            (doubleToInt g
              (QRectF_bottom (QRectF_adjust (lm p) (tm p) (- rm p) (- bm p) (canvasBoundingRect p))))]"
    by (simp add: paintPageBorder_def Let_def doubleToInt_zero)
  show "paintPageBorder g (s\<lparr>showPageborders := False\<rparr>) p =
        [SetBrush NoBrush, SetPen (QPen (borderColor g) (borderWidth g)),
         DrawRect (canvasBoundingRect p)]"
    by (simp add: paintPageBorder_def Let_def)
  show "paintPageBorder exampleGlobals (exampleScore [] PAGE)
        ((examplePage 90 False)\<lparr>canvasBoundingRect := QRectF 90.5 0 80 99.75\<rparr>) =
        [SetBrush NoBrush, SetPen (QPen (QColor 0 0 0) 1), DrawRect (QRectF 90.5 0 80 99.75),
         SetBrush NoBrush, SetPen (QPen_color (QColor 128 128 128)),
         DrawRect (QRectF 100.5 10 60 79.75), DrawLine 160 0 160 89]"
    by (simp add: paintPageBorder_def Let_def exampleGlobals_def exampleScore_def
        examplePage_def doubleToInt_def truncateTowardZero_def)
qed

subsection \<open>Metadata\<close>

lemma setMetaInfo_then_metaInfo_fields:
  assumes "m_score n = Some s"
  shows "\<exists>meta. setMetaInfo_then_metaInfo m n = Inr meta
     \<and> subtitle meta = subtitle m \<and> composer meta = composer m \<and> lyricist meta = lyricist m
     \<and> copyright meta = copyright m \<and> translator meta = translator m
     \<and> arranger meta = arranger m
     \<and> creationDate meta = QDate_fromString_ISODate (QDate_toString (creationDate m))"
  using assms
  by (simp add: setMetaInfo_then_metaInfo_def setMetaInfo_def metaInfo_def score_def
      setMetaTag_def metaTag_def SUBTITLE_KEY_def COMPOSER_KEY_def LYRICIST_KEY_def
      COPYRIGHT_KEY_def TRANSLATOR_KEY_def ARRANGER_KEY_def CREATION_DATE_KEY_def)

text \<open>
  The text format starts with the name of the day, so its first four characters are
  never a year: the ISO parser gives the null date on every date written in text format.
\<close>

lemma toInt_shortDayName: "toInt (shortDayName wd @ '' '') = 0"
  by (simp add: shortDayName_def toInt_def trimmed_def isSpace_def unsignedToInt_def
      isDigit_def)

lemma length_shortDayName: "length (shortDayName wd) = 3"
  by (simp add: shortDayName_def)

lemma textDate_is_not_ISODate: "QDate_fromString_ISODate (QDate_toString d) = NullDate"
proof (cases d)
  case NullDate
  then show ?thesis by (simp add: QDate_fromString_ISODate_def)
next
  case (Date y m dd)
  show ?thesis
  proof (cases "isValid_ymd y m dd")
    case False
    with Date show ?thesis by (simp add: QDate_fromString_ISODate_def)
  next
    case True
    define rest where "rest = shortMonthName m @ '' '' @ number dd @ '' '' @ number y"
    have s: "QDate_toString d = (shortDayName (dayOfWeek y m dd) @ '' '') @ rest"
      using Date True by (simp add: rest_def)
    have "mid 0 4 (QDate_toString d) = shortDayName (dayOfWeek y m dd) @ '' ''"
      unfolding s mid_def by (simp add: length_shortDayName)
    then have "toInt (mid 0 4 (QDate_toString d)) = 0"
      by (simp add: toInt_shortDayName)
    then show ?thesis
      by (simp add: QDate_fromString_ISODate_def Let_def)
  qed
qed

lemma QDate_toString_example: "QDate_toString (Date 2020 1 1) = ''Wed Jan 1 2020''"
  by (simp add: isValid_ymd_def daysInMonth_def dayOfWeek_def julianDayFromDate_def
      shortDayName_def shortMonthName_def number_def numberNat.simps digitChar_def)

text \<open>
  C4. The claim is that \<open>metaInfo\<close> after \<open>setMetaInfo m\<close> gives back the seven fields
  of \<open>m\<close>. The six strings do come back (\<open>setMetaInfo_then_metaInfo_fields\<close>), the
  creation date does not: it is written in text format and read as an ISO date. At the
  meta data \<open>exampleMeta\<close>, whose creation date is the valid date 2020-01-01, the tag
  written is "Wed Jan 1 2020" and the date read back is the null date.
\<close>

theorem creationDate_roundtrip_fails:
  "QDate_isValid (creationDate exampleMeta)
   \<and> creationDate exampleMeta = Date 2020 1 1
   \<and> QDate_toString (creationDate exampleMeta) = ''Wed Jan 1 2020''
   \<and> (\<exists>meta. setMetaInfo_then_metaInfo exampleMeta (exampleNotation (Some (exampleScore [] PAGE)))
                = Inr meta
         \<and> creationDate meta = NullDate
         \<and> creationDate meta \<noteq> creationDate exampleMeta)"
proof -
  have v: "QDate_isValid (creationDate exampleMeta) \<and> creationDate exampleMeta = Date 2020 1 1"
    by (simp add: exampleMeta_def isValid_ymd_def daysInMonth_def)
  have t: "QDate_toString (creationDate exampleMeta) = ''Wed Jan 1 2020''"
    by (simp add: exampleMeta_def QDate_toString_example del: QDate_toString.simps)
  have s: "m_score (exampleNotation (Some (exampleScore [] PAGE))) = Some (exampleScore [] PAGE)"
    by (simp add: exampleNotation_def)
  from setMetaInfo_then_metaInfo_fields [OF s, of exampleMeta]
  obtain meta where
    m: "setMetaInfo_then_metaInfo exampleMeta (exampleNotation (Some (exampleScore [] PAGE)))
          = Inr meta"
    and d: "creationDate meta = QDate_fromString_ISODate (QDate_toString (creationDate exampleMeta))"
    by blast
  from d have n: "creationDate meta = NullDate"
    by (simp only: textDate_is_not_ISODate)
  with v have "creationDate meta \<noteq> creationDate exampleMeta"
    by simp
  with m n have "\<exists>meta. setMetaInfo_then_metaInfo exampleMeta
        (exampleNotation (Some (exampleScore [] PAGE))) = Inr meta
      \<and> creationDate meta = NullDate \<and> creationDate meta \<noteq> creationDate exampleMeta"
    by blast
  with v t show ?thesis by blast
qed

text \<open>
  C10. With an attached score \<open>s\<close>, \<open>setMetaInfo m\<close> returns, and the score it leaves is
  \<open>s\<close> with nothing but the tag store changed, and the tag store changed at no key
  outside the seven fixed keys. So the score's title is the one of \<open>s\<close>, and the title
  that \<open>metaInfo\<close> then reports is the title of \<open>s\<close>, whatever the title of \<open>m\<close>.
\<close>

theorem setMetaInfo_keeps_title:
  assumes "m_score n = Some s"
  shows "(\<exists>s'. setMetaInfo m n = Inr (n\<lparr>m_score := Some s'\<rparr>)
            \<and> Score_title s' = Score_title s
            \<and> s' = s\<lparr>metaTags := metaTags s'\<rparr>
            \<and> (\<forall>k. k \<notin> set metaKeys \<longrightarrow> metaTags s' k = metaTags s k))
       \<and> (\<exists>meta. setMetaInfo_then_metaInfo m n = Inr meta \<and> title meta = Score_title s)"
proof -
  define tags where "tags = (metaTags s)
     (SUBTITLE_KEY \<mapsto> subtitle m, COMPOSER_KEY \<mapsto> composer m, LYRICIST_KEY \<mapsto> lyricist m,
      COPYRIGHT_KEY \<mapsto> copyright m, TRANSLATOR_KEY \<mapsto> translator m,
      ARRANGER_KEY \<mapsto> arranger m, CREATION_DATE_KEY \<mapsto> QDate_toString (creationDate m))"
  have r: "setMetaInfo m n = Inr (n\<lparr>m_score := Some (s\<lparr>metaTags := tags\<rparr>)\<rparr>)"
    using assms by (simp add: setMetaInfo_def score_def setMetaTag_def tags_def)
  have k: "\<forall>k. k \<notin> set metaKeys \<longrightarrow> tags k = metaTags s k"
    by (simp add: tags_def metaKeys_def)
  have t: "\<exists>meta. setMetaInfo_then_metaInfo m n = Inr meta \<and> title meta = Score_title s"
    by (simp add: setMetaInfo_then_metaInfo_def r metaInfo_def score_def)
  from r k have "setMetaInfo m n = Inr (n\<lparr>m_score := Some (s\<lparr>metaTags := tags\<rparr>)\<rparr>)
      \<and> Score_title (s\<lparr>metaTags := tags\<rparr>) = Score_title s
      \<and> s\<lparr>metaTags := tags\<rparr> = s\<lparr>metaTags := metaTags (s\<lparr>metaTags := tags\<rparr>)\<rparr>
      \<and> (\<forall>k. k \<notin> set metaKeys \<longrightarrow> metaTags (s\<lparr>metaTags := tags\<rparr>) k = metaTags s k)"
    by simp
  then have "\<exists>s'. setMetaInfo m n = Inr (n\<lparr>m_score := Some s'\<rparr>)
            \<and> Score_title s' = Score_title s
            \<and> s' = s\<lparr>metaTags := metaTags s'\<rparr>
            \<and> (\<forall>k. k \<notin> set metaKeys \<longrightarrow> metaTags s' k = metaTags s k)"
    by (rule exI)
  then show ?thesis using t by (rule conjI)
qed

theorem setMetaInfo_keeps_title_witness:
  "m_score (exampleNotation (Some (exampleScore [] PAGE))) = Some (exampleScore [] PAGE)
   \<and> title exampleMeta = ''Etude''
   \<and> (\<exists>meta. setMetaInfo_then_metaInfo exampleMeta (exampleNotation (Some (exampleScore [] PAGE)))
                = Inr meta
         \<and> title meta = ''Sonata'')
   \<and> (\<exists>s'. setMetaInfo exampleMeta (exampleNotation (Some (exampleScore [] PAGE))) =
              Inr ((exampleNotation (Some (exampleScore [] PAGE)))\<lparr>m_score := Some s'\<rparr>)
         \<and> Score_title s' = ''Sonata''
         \<and> metaTags s' ''workTitle'' = None
         \<and> metaTags s' ''subtitle'' = Some ''Op. 1'')"
proof -
  let ?n = "exampleNotation (Some (exampleScore [] PAGE))"
  have a: "m_score ?n = Some (exampleScore [] PAGE)"
    by (simp add: exampleNotation_def)
  have w: "''workTitle'' \<notin> set metaKeys"
    by (simp add: metaKeys_def SUBTITLE_KEY_def COMPOSER_KEY_def LYRICIST_KEY_def
        COPYRIGHT_KEY_def TRANSLATOR_KEY_def ARRANGER_KEY_def CREATION_DATE_KEY_def)
  have sub: "\<And>s'. setMetaInfo exampleMeta ?n = Inr (?n\<lparr>m_score := Some s'\<rparr>)
      \<Longrightarrow> metaTags s' ''subtitle'' = Some ''Op. 1''"
    by (simp add: setMetaInfo_def score_def exampleNotation_def setMetaTag_def exampleMeta_def
        SUBTITLE_KEY_def COMPOSER_KEY_def LYRICIST_KEY_def
        COPYRIGHT_KEY_def TRANSLATOR_KEY_def ARRANGER_KEY_def CREATION_DATE_KEY_def)
  from setMetaInfo_keeps_title [OF a, of exampleMeta]
  obtain s' meta where
    1: "setMetaInfo exampleMeta ?n = Inr (?n\<lparr>m_score := Some s'\<rparr>)"
    and 2: "Score_title s' = Score_title (exampleScore [] PAGE)"
    and 3: "\<forall>k. k \<notin> set metaKeys \<longrightarrow> metaTags s' k = metaTags (exampleScore [] PAGE) k"
    and 4: "setMetaInfo_then_metaInfo exampleMeta ?n = Inr meta"
    and 5: "title meta = Score_title (exampleScore [] PAGE)"
    by blast
  from 3 w have 6: "metaTags s' ''workTitle'' = None"
    by (simp add: exampleScore_def)
  from 2 have 7: "Score_title s' = ''Sonata''"
    by (simp add: exampleScore_def)
  from 5 have 8: "title meta = ''Sonata''"
    by (simp add: exampleScore_def)
  have 9: "title exampleMeta = ''Etude''"
    by (simp add: exampleMeta_def)
  from 1 6 7 sub [OF 1] have "\<exists>s'. setMetaInfo exampleMeta ?n = Inr (?n\<lparr>m_score := Some s'\<rparr>)
         \<and> Score_title s' = ''Sonata''
         \<and> metaTags s' ''workTitle'' = None
         \<and> metaTags s' ''subtitle'' = Some ''Op. 1''"
    by blast
  moreover from 4 8 have "\<exists>meta. setMetaInfo_then_metaInfo exampleMeta ?n = Inr meta
         \<and> title meta = ''Sonata''"
    by blast
  ultimately show ?thesis using a 9 by blast
qed

subsection \<open>What the painter sees of a page\<close>

lemma rectsFilled_append: "rectsFilled (xs @ ys) = rectsFilled xs @ rectsFilled ys"
  by (simp add: rectsFilled_def)

lemma rectsDrawn_append: "rectsDrawn (xs @ ys) = rectsDrawn xs @ rectsDrawn ys"
  by (simp add: rectsDrawn_def)

lemma lineDraws_append: "lineDraws (xs @ ys) = lineDraws xs + lineDraws ys"
  by (simp add: lineDraws_def)

lemma paintElements_seen:
  "rectsFilled (fst (paintElements es)) = []
   \<and> rectsDrawn (fst (paintElements es)) = []
   \<and> lineDraws (fst (paintElements es)) = 0"
  by (induction es)
    (simp_all add: rectsFilled_def rectsDrawn_def lineDraws_def split_beta Let_def)

lemma paintPageBorder_seen:
  "rectsFilled (paintPageBorder g s p) = []
   \<and> rectsDrawn (paintPageBorder g s p) = borderFrames s p
   \<and> lineDraws (paintPageBorder g s p) = (if showPageborders s \<and> \<not> isOdd p then 1 else 0)"
  by (simp add: paintPageBorder_def borderFrames_def rectsFilled_def rectsDrawn_def
      lineDraws_def Let_def)

lemma paintPage_calls:
  "fst (paintPage g s b p) =
     (if b then paintPageBorder g s p else [])
       @ [Translate (pos p), FillRect (bbox p) (pageColor g)]
       @ fst (paintElements (elements p))
       @ [Translate (QPointF_neg (pos p))]"
  by (simp add: paintPage_def split_beta Let_def)

lemma paintPage_seen:
  "rectsFilled (fst (paintPage g s b p)) = [bbox p]
   \<and> rectsDrawn (fst (paintPage g s b p)) = (if b then borderFrames s p else [])
   \<and> lineDraws (fst (paintPage g s b p)) =
       (if b \<and> showPageborders s \<and> \<not> isOdd p then 1 else 0)"
  using paintElements_seen [of "elements p"] paintPageBorder_seen [of g s p]
  by (simp add: paintPage_calls rectsFilled_append rectsDrawn_append lineDraws_append)
    (simp add: rectsFilled_def rectsDrawn_def lineDraws_def)

lemma pages_seen:
  "rectsFilled (concat (map (\<lambda>p. fst (paintPage g s b p)) vs)) = map bbox vs
   \<and> rectsDrawn (concat (map (\<lambda>p. fst (paintPage g s b p)) vs)) =
       (if b then concat (map (borderFrames s) vs) else [])
   \<and> lineDraws (concat (map (\<lambda>p. fst (paintPage g s b p)) vs)) =
       (if b \<and> showPageborders s then length (filter (\<lambda>p. \<not> isOdd p) vs) else 0)"
proof (induction vs)
  case Nil
  show ?case by (simp add: rectsFilled_def rectsDrawn_def lineDraws_def)
next
  case (Cons v vs)
  then show ?case
    using paintPage_seen [of g s b v]
    by (simp add: rectsFilled_append rectsDrawn_append lineDraws_append)
qed

subsection \<open>The page loop\<close>

text \<open>
  The loop with its \<^verbatim>\<open>continue\<close> and \<^verbatim>\<open>break\<close>, said with the list functions, for every
  list of pages: it paints the visited pages in order, and leaves the pages from the
  break on as they are.
\<close>

lemma paintPages_visited:
  "paintPages g s f ps b =
     (concat (map (\<lambda>p. fst (paintPage g s b p)) (visitedPages f ps)),
      map (\<lambda>p. if entirelyLeft f p then p else snd (paintPage g s b p))
          (takeWhile (\<lambda>p. entirelyLeft f p \<or> \<not> startsBeyond f p) ps)
        @ dropWhile (\<lambda>p. entirelyLeft f p \<or> \<not> startsBeyond f p) ps)"
  by (induction ps)
    (simp_all add: visitedPages_def entirelyLeft_def startsBeyond_def split_beta Let_def)

lemma paintPages_break:
  assumes "\<not> entirelyLeft f p" and "startsBeyond f p"
  shows "paintPages g s f (xs @ p # ys) b =
     (fst (paintPages g s f xs b), snd (paintPages g s f xs b) @ p # ys)"
  using assms
  by (induction xs) (simp_all add: entirelyLeft_def startsBeyond_def split_beta Let_def)

lemma visitedPages_increasing:
  assumes "increasingExtents ps"
  shows "visitedPages f ps = filter (intersectsHorizontally f) ps"
  using assms
proof (induction ps)
  case Nil
  show ?case by (simp add: visitedPages_def)
next
  case (Cons page rest)
  from Cons.prems have sorted_rest: "increasingExtents rest"
    and later: "\<forall>q \<in> set rest. QRectF_left (pageRect page) < QRectF_left (pageRect q)"
    by (auto simp add: increasingExtents_def)
  note IH = Cons.IH [OF sorted_rest]
  show ?case
  proof (cases "entirelyLeft f page \<or> \<not> startsBeyond f page")
    case True
    then show ?thesis
      using IH by (auto simp add: visitedPages_def intersectsHorizontally_def)
  next
    case False
    then have beyond: "startsBeyond f page" by simp
    have "\<forall>q \<in> set rest. startsBeyond f q"
      using later beyond by (auto simp add: startsBeyond_def)
    with beyond have "\<forall>q \<in> set (page # rest). \<not> intersectsHorizontally f q"
      by (simp add: intersectsHorizontally_def)
    then have "filter (intersectsHorizontally f) (page # rest) = []"
      by (simp only: filter_empty_conv)
    moreover from False have "visitedPages f (page # rest) = []"
      by (simp add: visitedPages_def)
    ultimately show ?thesis by simp
  qed
qed

lemma increasingExtents_append:
  "increasingExtents (xs @ ys) \<Longrightarrow> increasingExtents xs \<and> increasingExtents ys"
  by (simp add: increasingExtents_def sorted_wrt_append)

lemma paintPages_stop_increasing:
  assumes "increasingExtents (xs @ p # ys)" and "startsBeyond f p"
  shows "paintPages g s f (xs @ p # ys) b =
     (fst (paintPages g s f xs b), snd (paintPages g s f xs b) @ p # ys)"
proof (cases "entirelyLeft f p")
  case False
  then show ?thesis using assms(2) by (rule paintPages_break)
next
  case True
  from assms(1) have sy: "increasingExtents (p # ys)"
    using increasingExtents_append by blast
  then have "\<forall>q \<in> set ys. QRectF_left (pageRect p) < QRectF_left (pageRect q)"
    by (auto simp add: increasingExtents_def)
  with assms(2) have all: "\<forall>q \<in> set (p # ys). startsBeyond f q"
    by (auto simp add: startsBeyond_def)
  have tail: "\<And>qs. \<forall>q \<in> set qs. startsBeyond f q \<Longrightarrow> paintPages g s f qs b = ([], qs)"
  proof -
    fix qs
    show "\<forall>q \<in> set qs. startsBeyond f q \<Longrightarrow> paintPages g s f qs b = ([], qs)"
      by (induction qs) (simp_all add: startsBeyond_def split_beta Let_def)
  qed
  have app: "\<And>as bs. paintPages g s f bs b = ([], bs) \<Longrightarrow>
      paintPages g s f (as @ bs) b =
        (fst (paintPages g s f as b), snd (paintPages g s f as b) @ bs)"
  proof -
    fix as bs
    assume e: "paintPages g s f bs b = ([], bs)"
    show "paintPages g s f (as @ bs) b =
        (fst (paintPages g s f as b), snd (paintPages g s f as b) @ bs)"
      using e by (induction as) (simp_all add: split_beta Let_def)
  qed
  from app [OF tail [OF all]] show ?thesis .
qed


lemma paintPages_single:
  "paintPages g s f [p] b =
     (if intersectsHorizontally f p then fst (paintPage g s b p) else [],
      [if intersectsHorizontally f p then snd (paintPage g s b p) else p])"
  by (simp add: intersectsHorizontally_def entirelyLeft_def startsBeyond_def split_beta Let_def)

lemma paint_first_page:
  assumes "m_score n = Some s" and "pages s = p # ps"
    and "layoutMode s = LINE \<or> layoutMode s = SYSTEM"
  shows "paint g f n =
     Inr ((if intersectsHorizontally f p then fst (paintPage g s False p) else [])
            @ [InteractionPaint],
          n\<lparr>m_score := Some (s\<lparr>pages :=
              (if intersectsHorizontally f p then snd (paintPage g s False p) else p) # ps\<rparr>)\<rparr>)"
  using assms
  by (auto simp add: paint_def score_def Let_def split_beta paintPages_single
      simp del: paintPages.simps)

lemma paint_all_pages:
  assumes "m_score n = Some s" and "pages s \<noteq> []"
    and "layoutMode s = FLOAT \<or> layoutMode s = PAGE"
  shows "paint g f n =
          Inr (fst (paintPages g s f (pages s) (\<not> printing s)) @ [InteractionPaint],
               n\<lparr>m_score :=
                   Some (s\<lparr>pages := snd (paintPages g s f (pages s) (\<not> printing s))\<rparr>)\<rparr>)"
proof -
  from assms(2) obtain p ps where "pages s = p # ps"
    by (cases "pages s") auto
  with assms show ?thesis
    by (auto simp add: paint_def score_def Let_def split_beta simp del: paintPages.simps)
qed

lemma example_cut:
  "entirelyLeft exampleFrame (examplePage 0 True)
   \<and> intersectsHorizontally exampleFrame (examplePage 90 False)
   \<and> intersectsHorizontally exampleFrame (examplePage 180 True)
   \<and> \<not> entirelyLeft exampleFrame (examplePage 310 False)
   \<and> startsBeyond exampleFrame (examplePage 310 False)
   \<and> startsBeyond exampleFrame (examplePage 400 True)"
  by (simp add: intersectsHorizontally_def entirelyLeft_def startsBeyond_def examplePage_def
      pageRect_def exampleFrame_def)

lemma example_visited:
  "visitedPages exampleFrame examplePages = [examplePage 90 False, examplePage 180 True]"
  using example_cut
  by (simp add: visitedPages_def examplePages_def intersectsHorizontally_def)

lemma example_increasing: "increasingExtents examplePages"
  by (simp add: increasingExtents_def examplePages_def examplePage_def pageRect_def)

lemma example_frames:
  "bbox (examplePage x parity) = QRectF 0 0 80 100
   \<and> borderFrames (exampleScore ps mode) (examplePage x parity) =
       [QRectF x 0 80 100, QRectF (x + 10) 10 60 80]
   \<and> isOdd (examplePage x parity) = parity"
  by (simp add: examplePage_def borderFrames_def exampleScore_def)

subsection \<open>Painting: modes and borders\<close>




subsection \<open>Painting: page culling\<close>

text \<open>
  C1, as amended: the claim for the page loop \<^verbatim>\<open>paintPages\<close> on the list it is handed
  (in \<open>paint\<close>, all pages of the score in the modes \<open>FLOAT\<close> and \<open>PAGE\<close>).

  For every visible region \<open>f\<close> and every page list \<open>ps\<close>, the loop paints the visited
  pages of \<open>ps\<close>, in order, each with the calls of the loop body (the border if asked
  for, the move to the page, its background, its elements, the move back), so the
  backgrounds filled are those of the visited pages; and the loop stops at a page that
  is not entirely to the left and starts beyond the right edge: if \<open>ps\<close> is
  \<open>xs @ p # ys\<close> with such a \<open>p\<close>, the loop on \<open>ps\<close> does what it does on \<open>xs\<close> and leaves
  \<open>p\<close> and \<open>ys\<close> untouched, whatever \<open>ys\<close> holds.

  When \<open>ps\<close> has strictly increasing horizontal extents, the visited pages are exactly
  the pages that cut \<open>f\<close> horizontally (not entirely to its left, not starting beyond its
  right edge), so exactly those are painted, in the order of the list, and no page
  entirely to the left is visited; nothing from a page that starts beyond the right edge
  on is painted; and when \<open>ps\<close> are the pages of the attached score in the mode \<open>FLOAT\<close>
  or \<open>PAGE\<close>, the painter calls of \<open>paint\<close> are those of the pages that cut \<open>f\<close>, in
  order, followed by the interaction overlay.
\<close>

theorem paintPages_culling:
  "paintPages g s f ps b =
     (concat (map (\<lambda>p. fst (paintPage g s b p)) (visitedPages f ps)),
      map (\<lambda>p. if entirelyLeft f p then p else snd (paintPage g s b p))
          (takeWhile (\<lambda>p. entirelyLeft f p \<or> \<not> startsBeyond f p) ps)
        @ dropWhile (\<lambda>p. entirelyLeft f p \<or> \<not> startsBeyond f p) ps)
   \<and> (\<forall>p. fst (paintPage g s b p) =
          (if b then paintPageBorder g s p else [])
            @ [Translate (pos p), FillRect (bbox p) (pageColor g)]
            @ fst (paintElements (elements p))
            @ [Translate (QPointF_neg (pos p))])
   \<and> rectsFilled (fst (paintPages g s f ps b)) = map bbox (visitedPages f ps)
   \<and> (\<forall>xs p ys. ps = xs @ p # ys \<and> \<not> entirelyLeft f p \<and> startsBeyond f p \<longrightarrow>
         paintPages g s f ps b =
           (fst (paintPages g s f xs b), snd (paintPages g s f xs b) @ p # ys))
   \<and> (increasingExtents ps \<longrightarrow>
         visitedPages f ps = filter (intersectsHorizontally f) ps
         \<and> fst (paintPages g s f ps b) =
             concat (map (\<lambda>p. fst (paintPage g s b p)) (filter (intersectsHorizontally f) ps))
         \<and> rectsFilled (fst (paintPages g s f ps b)) =
             map bbox (filter (intersectsHorizontally f) ps)
         \<and> (\<forall>xs p ys. ps = xs @ p # ys \<and> startsBeyond f p \<longrightarrow>
               paintPages g s f ps b =
                 (fst (paintPages g s f xs b), snd (paintPages g s f xs b) @ p # ys))
         \<and> (\<forall>n. m_score n = Some s \<and> pages s = ps \<and> ps \<noteq> []
                 \<and> (layoutMode s = FLOAT \<or> layoutMode s = PAGE) \<longrightarrow>
               map_sum id fst (paint g f n) =
                 Inr (concat (map (\<lambda>p. fst (paintPage g s (\<not> printing s) p))
                                  (filter (intersectsHorizontally f) ps))
                      @ [InteractionPaint])))"
proof (intro conjI allI impI)
  show "paintPages g s f ps b =
     (concat (map (\<lambda>p. fst (paintPage g s b p)) (visitedPages f ps)),
      map (\<lambda>p. if entirelyLeft f p then p else snd (paintPage g s b p))
          (takeWhile (\<lambda>p. entirelyLeft f p \<or> \<not> startsBeyond f p) ps)
        @ dropWhile (\<lambda>p. entirelyLeft f p \<or> \<not> startsBeyond f p) ps)"
    by (rule paintPages_visited)
next
  fix p
  show "fst (paintPage g s b p) =
          (if b then paintPageBorder g s p else [])
            @ [Translate (pos p), FillRect (bbox p) (pageColor g)]
            @ fst (paintElements (elements p))
            @ [Translate (QPointF_neg (pos p))]"
    by (rule paintPage_calls)
next
  show "rectsFilled (fst (paintPages g s f ps b)) = map bbox (visitedPages f ps)"
    using pages_seen [of g s b "visitedPages f ps"] by (simp add: paintPages_visited)
next
  fix xs p ys
  assume "ps = xs @ p # ys \<and> \<not> entirelyLeft f p \<and> startsBeyond f p"
  then show "paintPages g s f ps b =
           (fst (paintPages g s f xs b), snd (paintPages g s f xs b) @ p # ys)"
    using paintPages_break [of f p g s xs ys b] by simp
next
  assume "increasingExtents ps"
  then show "visitedPages f ps = filter (intersectsHorizontally f) ps"
    by (rule visitedPages_increasing)
next
  assume "increasingExtents ps"
  then have "visitedPages f ps = filter (intersectsHorizontally f) ps"
    by (rule visitedPages_increasing)
  then show "fst (paintPages g s f ps b) =
             concat (map (\<lambda>p. fst (paintPage g s b p)) (filter (intersectsHorizontally f) ps))"
    by (simp add: paintPages_visited)
next
  assume "increasingExtents ps"
  then have "visitedPages f ps = filter (intersectsHorizontally f) ps"
    by (rule visitedPages_increasing)
  then show "rectsFilled (fst (paintPages g s f ps b)) =
             map bbox (filter (intersectsHorizontally f) ps)"
    using pages_seen [of g s b "visitedPages f ps"] by (simp add: paintPages_visited)
next
  fix xs p ys
  assume "increasingExtents ps" and "ps = xs @ p # ys \<and> startsBeyond f p"
  then show "paintPages g s f ps b =
                 (fst (paintPages g s f xs b), snd (paintPages g s f xs b) @ p # ys)"
    using paintPages_stop_increasing [of xs p ys f g s b] by simp
next
  fix n :: Notation
  assume inc: "increasingExtents ps"
    and a: "m_score n = Some s \<and> pages s = ps \<and> ps \<noteq> []
                 \<and> (layoutMode s = FLOAT \<or> layoutMode s = PAGE)"
  from a have "paint g f n =
          Inr (fst (paintPages g s f ps (\<not> printing s)) @ [InteractionPaint],
               n\<lparr>m_score := Some (s\<lparr>pages := snd (paintPages g s f ps (\<not> printing s))\<rparr>)\<rparr>)"
    using paint_all_pages [of n s g f] by simp
  then show "map_sum id fst (paint g f n) =
                 Inr (concat (map (\<lambda>p. fst (paintPage g s (\<not> printing s) p))
                                  (filter (intersectsHorizontally f) ps))
                      @ [InteractionPaint])"
    by (simp add: paintPages_visited visitedPages_increasing [OF inc])
qed

theorem paintPages_culling_witness:
  "increasingExtents examplePages
   \<and> filter (intersectsHorizontally exampleFrame) examplePages =
       [examplePage 90 False, examplePage 180 True]
   \<and> entirelyLeft exampleFrame (examplePage 0 True)
   \<and> startsBeyond exampleFrame (examplePage 310 False)
   \<and> fst (paintPages exampleGlobals (exampleScore examplePages PAGE) exampleFrame
            examplePages False) =
       [Translate (QPointF 90 0), FillRect (QRectF 0 0 80 100) (QColor 255 255 255),
        Translate (QPointF 5 5),
        ElementDraw \<lparr>visible = True, itemDiscovered = False, pagePos = QPointF 5 5\<rparr>,
        Translate (QPointF (- 5) (- 5)), Translate (QPointF (- 90) 0),
        Translate (QPointF 180 0), FillRect (QRectF 0 0 80 100) (QColor 255 255 255),
        Translate (QPointF 5 5),
        ElementDraw \<lparr>visible = True, itemDiscovered = False, pagePos = QPointF 5 5\<rparr>,
        Translate (QPointF (- 5) (- 5)), Translate (QPointF (- 180) 0)]
   \<and> paintPages exampleGlobals (exampleScore examplePages PAGE) exampleFrame examplePages True =
       (fst (paintPages exampleGlobals (exampleScore examplePages PAGE) exampleFrame
               [examplePage 0 True, examplePage 90 False, examplePage 180 True] True),
        snd (paintPages exampleGlobals (exampleScore examplePages PAGE) exampleFrame
               [examplePage 0 True, examplePage 90 False, examplePage 180 True] True)
          @ [examplePage 310 False, examplePage 400 True])
   \<and> paintPages exampleGlobals (exampleScore examplePages PAGE) exampleFrame
        [examplePage 90 False, examplePage 310 False, examplePage 180 True] False =
       (fst (paintPages exampleGlobals (exampleScore examplePages PAGE) exampleFrame
               [examplePage 90 False] False),
        snd (paintPages exampleGlobals (exampleScore examplePages PAGE) exampleFrame
               [examplePage 90 False] False)
          @ [examplePage 310 False, examplePage 180 True])
   \<and> intersectsHorizontally exampleFrame (examplePage 180 True)
   \<and> rectsFilled (fst (paintPages exampleGlobals (exampleScore examplePages PAGE) exampleFrame
        [examplePage 90 False, examplePage 310 False, examplePage 180 True] False)) =
       [QRectF 0 0 80 100]
   \<and> map_sum id fst (paint exampleGlobals exampleFrame
         (exampleNotation (Some (exampleScore examplePages PAGE)))) =
       Inr (fst (paintPage exampleGlobals (exampleScore examplePages PAGE) True
                   (examplePage 90 False))
            @ fst (paintPage exampleGlobals (exampleScore examplePages PAGE) True
                   (examplePage 180 True))
            @ [InteractionPaint])"
proof -
  let ?g = exampleGlobals and ?s = "exampleScore examplePages PAGE" and ?f = exampleFrame
  let ?u = "[examplePage 90 False, examplePage 310 False, examplePage 180 True]"
  note inc = example_increasing
  note th = paintPages_culling [of ?g ?s ?f examplePages]
  note tu = paintPages_culling [of ?g ?s ?f ?u False]
  have fl: "filter (intersectsHorizontally ?f) examplePages =
       [examplePage 90 False, examplePage 180 True]"
    using th [of True, THEN conjunct2, THEN conjunct2, THEN conjunct2, THEN conjunct2,
        rule_format, OF inc]
    by (simp add: example_visited)
  have body: "\<And>x parity. fst (paintPage ?g ?s False (examplePage x parity)) =
       [Translate (QPointF x 0), FillRect (QRectF 0 0 80 100) (QColor 255 255 255),
        Translate (QPointF 5 5),
        ElementDraw \<lparr>visible = True, itemDiscovered = False, pagePos = QPointF 5 5\<rparr>,
        Translate (QPointF (- 5) (- 5)), Translate (QPointF (- x) 0)]"
    by (simp add: examplePage_def exampleElement_def exampleGlobals_def paintPage_def Let_def)
  note ordered = th [of False, THEN conjunct2, THEN conjunct2, THEN conjunct2, THEN conjunct2,
      rule_format, OF inc]
  from ordered [THEN conjunct2, THEN conjunct1]
  have "fst (paintPages ?g ?s ?f examplePages False) =
      concat (map (\<lambda>p. fst (paintPage ?g ?s False p))
        [examplePage 90 False, examplePage 180 True])"
    by (simp only: fl)
  then have 1: "fst (paintPages ?g ?s ?f examplePages False) =
       [Translate (QPointF 90 0), FillRect (QRectF 0 0 80 100) (QColor 255 255 255),
        Translate (QPointF 5 5),
        ElementDraw \<lparr>visible = True, itemDiscovered = False, pagePos = QPointF 5 5\<rparr>,
        Translate (QPointF (- 5) (- 5)), Translate (QPointF (- 90) 0),
        Translate (QPointF 180 0), FillRect (QRectF 0 0 80 100) (QColor 255 255 255),
        Translate (QPointF 5 5),
        ElementDraw \<lparr>visible = True, itemDiscovered = False, pagePos = QPointF 5 5\<rparr>,
        Translate (QPointF (- 5) (- 5)), Translate (QPointF (- 180) 0)]"
    by (simp add: body)
  have sp: "examplePages = [examplePage 0 True, examplePage 90 False, examplePage 180 True]
      @ examplePage 310 False # [examplePage 400 True] \<and> startsBeyond ?f (examplePage 310 False)"
    using example_cut by (simp add: examplePages_def)
  from th [of True] inc sp
  have 2: "paintPages ?g ?s ?f examplePages True =
       (fst (paintPages ?g ?s ?f [examplePage 0 True, examplePage 90 False, examplePage 180 True] True),
        snd (paintPages ?g ?s ?f [examplePage 0 True, examplePage 90 False, examplePage 180 True] True)
          @ examplePage 310 False # [examplePage 400 True])"
    by blast
  have su: "?u = [examplePage 90 False] @ examplePage 310 False # [examplePage 180 True]
      \<and> \<not> entirelyLeft ?f (examplePage 310 False) \<and> startsBeyond ?f (examplePage 310 False)"
    using example_cut by simp
  from tu su
  have 3: "paintPages ?g ?s ?f ?u False =
       (fst (paintPages ?g ?s ?f [examplePage 90 False] False),
        snd (paintPages ?g ?s ?f [examplePage 90 False] False)
          @ examplePage 310 False # [examplePage 180 True])"
    by blast
  have vu: "visitedPages ?f ?u = [examplePage 90 False]"
    using example_cut by (simp add: visitedPages_def intersectsHorizontally_def)
  from tu have "rectsFilled (fst (paintPages ?g ?s ?f ?u False)) = map bbox (visitedPages ?f ?u)"
    by blast
  then have 4: "rectsFilled (fst (paintPages ?g ?s ?f ?u False)) = [QRectF 0 0 80 100]"
    by (simp only: vu) (simp add: example_frames)
  have sc: "m_score (exampleNotation (Some ?s)) = Some ?s \<and> pages ?s = examplePages
      \<and> examplePages \<noteq> [] \<and> (layoutMode ?s = FLOAT \<or> layoutMode ?s = PAGE)"
    by (simp add: exampleNotation_def exampleScore_def examplePages_def)
  have pr: "(\<not> printing ?s) = True"
    by (simp add: exampleScore_def)
  from th [of True] inc sc
  have "map_sum id fst (paint ?g ?f (exampleNotation (Some ?s))) =
       Inr (concat (map (\<lambda>p. fst (paintPage ?g ?s (\<not> printing ?s) p))
                        (filter (intersectsHorizontally ?f) examplePages)) @ [InteractionPaint])"
    by blast
  then have 5: "map_sum id fst (paint ?g ?f (exampleNotation (Some ?s))) =
       Inr (fst (paintPage ?g ?s True (examplePage 90 False))
            @ fst (paintPage ?g ?s True (examplePage 180 True)) @ [InteractionPaint])"
    by (simp only: fl pr) simp
  from inc fl example_cut 1 2 3 4 5 show ?thesis by simp
qed

text \<open>
  C1 as worded speaks of \<open>paint\<close> in every mode. In the mode \<open>LINE\<close> only the first page
  is handed to the loop: the pages \<open>examplePages\<close> have strictly increasing extents and
  two of them cut the visible region \<open>exampleFrame\<close>, but the first one lies entirely to
  the left, and \<open>paint\<close> paints no page at all.
\<close>

theorem paint_LINE_paints_no_cutting_page:
  "increasingExtents examplePages
   \<and> filter (intersectsHorizontally exampleFrame) examplePages =
       [examplePage 90 False, examplePage 180 True]
   \<and> layoutMode (exampleScore examplePages LINE) = LINE
   \<and> paint exampleGlobals exampleFrame
        (exampleNotation (Some (exampleScore examplePages LINE))) =
       Inr ([InteractionPaint], exampleNotation (Some (exampleScore examplePages LINE)))"
proof -
  let ?s = "exampleScore examplePages LINE"
  have a: "m_score (exampleNotation (Some ?s)) = Some ?s"
    by (simp add: exampleNotation_def)
  have b: "pages ?s = examplePage 0 True #
       [examplePage 90 False, examplePage 180 True, examplePage 310 False, examplePage 400 True]"
    and c: "layoutMode ?s = LINE \<or> layoutMode ?s = SYSTEM"
    by (simp_all add: exampleScore_def examplePages_def)
  have d: "\<not> intersectsHorizontally exampleFrame (examplePage 0 True)"
    using example_cut by (simp add: intersectsHorizontally_def)
  have fl: "filter (intersectsHorizontally exampleFrame) examplePages =
       [examplePage 90 False, examplePage 180 True]"
    using visitedPages_increasing [OF example_increasing, of exampleFrame]
    by (simp add: example_visited)
  from paint_first_page [OF a b c, of exampleGlobals exampleFrame] d
  have "paint exampleGlobals exampleFrame (exampleNotation (Some ?s)) =
       Inr ([InteractionPaint], (exampleNotation (Some ?s))\<lparr>m_score := Some (?s\<lparr>pages :=
          examplePage 0 True #
          [examplePage 90 False, examplePage 180 True, examplePage 310 False,
           examplePage 400 True]\<rparr>)\<rparr>)"
    by simp
  then have "paint exampleGlobals exampleFrame (exampleNotation (Some ?s)) =
       Inr ([InteractionPaint], exampleNotation (Some ?s))"
    by (simp add: exampleNotation_def exampleScore_def examplePages_def)
  with example_increasing fl show ?thesis
    by (simp add: exampleScore_def)
qed

end
